theory Spec2Isabelle
  imports Main
begin

section \<open>The channel core of martd (channels.go)\<close>

text \<open>
  A shallow embedding of \<^verbatim>\<open>channels.go\<close>. Every method of \<^verbatim>\<open>Channel\<close> takes the
  channel's lock on entry and releases it on return, so each method is one atomic step on
  the channel's state; the model is the behaviour of one such step, which for \<^verbatim>\<open>Pub\<close>
  includes being held up in a send.

  Conventions:
  \<^item> Go's \<^verbatim>\<open>uint\<close> is \<open>nat\<close>. The only subtraction on a \<^verbatim>\<open>uint\<close> (\<^verbatim>\<open>ml-1\<close> in
    \<^verbatim>\<open>HasNew\<close>) runs under the guard \<^verbatim>\<open>Length() > 0\<close>, and every increment
    \<^verbatim>\<open>i++\<close> or \<^verbatim>\<open>i + 1\<close> runs under \<^verbatim>\<open>i < ml\<close>, so no operation of the code
    wraps around.
  \<^item> Go's \<^verbatim>\<open>int64\<close> (\<^verbatim>\<open>Created\<close>, \<^verbatim>\<open>etag\<close>, \<^verbatim>\<open>time.Duration\<close>) is \<open>int\<close>: the
    code only compares and copies such values.
  \<^item> \<^verbatim>\<open>[]byte\<close> and Go's \<^verbatim>\<open>string\<close> are both byte sequences, and
    \<^verbatim>\<open>string(b)\<close> copies the bytes unchanged; both are \<open>string\<close> here.
  \<^item> A pointer is an \<open>option\<close>, \<open>None\<close> for nil; reading a field through a nil pointer
    panics in Go, which is the value \<open>Inl NilDeref\<close>.
  \<^item> \<^verbatim>\<open>time.Now().UnixNano()\<close> is an input of \<^verbatim>\<open>Pub\<close>, the parameter \<open>now\<close>.
\<close>

subsection \<open>Messages\<close>

type_synonym bytes = string

record Message =
  Data :: bytes
  Created :: int

datatype panic = NilDeref

subsection \<open>The circular history buffer\<close>

text \<open>
  The type \<^verbatim>\<open>CircularMessageArray\<close> and its operations are used by \<^verbatim>\<open>channels.go\<close>
  and declared in another file of the repository. They are modelled here from
  section 4.1 of the specification, each under its own remark.
\<close>

text \<open>
  Modelled from the spec: the error kinds of the buffer, \<^verbatim>\<open>Empty\<close> from the two
  peeks and \<^verbatim>\<open>IndexOutOfRange\<close> from \<^verbatim>\<open>Ith\<close> (section 7).
\<close>

datatype buf_error = Empty | IndexOutOfRange

text \<open>
  Modelled from the spec: the type \<^verbatim>\<open>CircularMessageArray\<close>, a store of fixed capacity
  holding the most recent messages in publish order, index 0 the oldest retained, the
  last index the newest.
\<close>

record CircularMessageArray =
  capacity :: nat
  retained :: "Message list"

text \<open>
  Modelled from the spec: \<^verbatim>\<open>NewCircularMessageArray(size)\<close>, the empty buffer of the
  given capacity.
\<close>

definition NewCircularMessageArray :: "nat \<Rightarrow> CircularMessageArray" where
  "NewCircularMessageArray sz = \<lparr>capacity = sz, retained = []\<rparr>"

text \<open>
  Modelled from the spec: \<^verbatim>\<open>Push(message)\<close>. A buffer of capacity 0 holds nothing; a
  push at capacity discards exactly the oldest retained message.
\<close>

definition Push :: "CircularMessageArray \<Rightarrow> Message \<Rightarrow> CircularMessageArray" where
  "Push b m =
     (if capacity b = 0 then b
      else if length (retained b) < capacity b then b\<lparr>retained := retained b @ [m]\<rparr>
      else b\<lparr>retained := tl (retained b) @ [m]\<rparr>)"

text \<open>
  Modelled from the spec: \<^verbatim>\<open>Length()\<close>, the number of messages retained.
\<close>

definition Length :: "CircularMessageArray \<Rightarrow> nat" where
  "Length b = length (retained b)"

text \<open>
  Modelled from the spec: \<^verbatim>\<open>Ith(i)\<close>, the i-th oldest retained message for
  \<open>0 \<le> i < Length()\<close>, the error IndexOutOfRange otherwise.
\<close>

definition Ith :: "CircularMessageArray \<Rightarrow> nat \<Rightarrow> buf_error + Message" where
  "Ith b i = (if i < Length b then Inr (retained b ! i) else Inl IndexOutOfRange)"

text \<open>
  Modelled from the spec: \<^verbatim>\<open>PeekOldest()\<close>, the message at index 0, the error Empty
  when \<open>Length() = 0\<close>.
\<close>

definition PeekOldest :: "CircularMessageArray \<Rightarrow> buf_error + Message" where
  "PeekOldest b = (if Length b = 0 then Inl Empty else Inr (retained b ! 0))"

text \<open>
  Modelled from the spec: \<^verbatim>\<open>PeekNewest()\<close>, the message at index \<open>Length() - 1\<close>, the
  error Empty when \<open>Length() = 0\<close>.
\<close>

definition PeekNewest :: "CircularMessageArray \<Rightarrow> buf_error + Message" where
  "PeekNewest b = (if Length b = 0 then Inl Empty else Inr (retained b ! (Length b - 1)))"

subsection \<open>What the code of the buffer decides\<close>

text \<open>
  Two things that \<^verbatim>\<open>channels.go\<close> runs into are decided by the code of the buffer and
  fixed neither by \<^verbatim>\<open>channels.go\<close> nor by the specification. They are parameters of
  the model, and every function that can meet one of them takes the record \<open>B\<close>:
  \<^item> \<open>failed_read B e\<close> is the message pointer that a read hands back beside the error
    \<open>e\<close> (nil, or a pointer to some message);
  \<^item> \<open>nil_receiver B\<close> says what a method of the buffer does when it is called through
    a nil pointer: \<open>None\<close> when it panics, \<open>Some b0\<close> when it goes on as it would on
    the buffer \<open>b0\<close> (a nil-safe method that takes nil for an empty buffer, say).
\<close>

record buffer_code =
  failed_read :: "buf_error \<Rightarrow> Message option"
  nil_receiver :: "CircularMessageArray option"

text \<open>
  \<^verbatim>\<open>m, _ := read\<close>: the code drops the error of a read and keeps the message pointer.
\<close>

definition ignore_err :: "buffer_code \<Rightarrow> buf_error + Message \<Rightarrow> Message option" where
  "ignore_err B r = (case r of Inl e \<Rightarrow> failed_read B e | Inr m \<Rightarrow> Some m)"

text \<open>
  \<^verbatim>\<open>m.Created\<close>, \<^verbatim>\<open>m.Data\<close>: a field read through a message pointer, a panic of the Go
  runtime when the pointer is nil.
\<close>

definition load :: "Message option \<Rightarrow> panic + Message" where
  "load p = (case p of None \<Rightarrow> Inl NilDeref | Some m \<Rightarrow> Inr m)"

text \<open>
  \<^verbatim>\<open>c.Messages.Method(...)\<close>: the buffer that a method called through the pointer
  \<^verbatim>\<open>Messages\<close> works on. \<^verbatim>\<open>HasNew\<close> tests the pointer before it calls a method; the
  other methods of \<^verbatim>\<open>Channel\<close> do not.
\<close>

definition deref :: "buffer_code \<Rightarrow> CircularMessageArray option \<Rightarrow> panic + CircularMessageArray" where
  "deref B p =
     (case p of
        Some b \<Rightarrow> Inr b
      | None \<Rightarrow> (case nil_receiver B of None \<Rightarrow> Inl NilDeref | Some b0 \<Rightarrow> Inr b0))"

subsection \<open>Channels\<close>

text \<open>
  A notification handle (\<^verbatim>\<open>chan *ChannelEvent\<close>) is identified by a number. The field
  \<^verbatim>\<open>Clients\<close> is a Go map from handles to \<^verbatim>\<open>bool\<close> of which only the key set is ever
  read: it is a set of handles. \<^verbatim>\<open>Messages\<close> is a pointer that is nil until the channel
  is configured: an \<open>option\<close>. A \<^verbatim>\<open>ChannelEvent\<close> points to its channel, which the
  registry identifies by name, and to its message.
\<close>

type_synonym handle = nat

record Channel =
  Name :: string
  Size :: nat
  Life :: int
  Key :: string
  Clients :: "handle set"
  Messages :: "CircularMessageArray option"
  One2One :: bool
  inited :: bool

record ChannelEvent =
  Chan :: string
  Mesg :: Message

subsection \<open>HasNew\<close>

text \<open>
  The loop \<^verbatim>\<open>for i := uint(0); i < ml-1; i++\<close> of \<^verbatim>\<open>HasNew\<close>, from index \<open>i\<close> on.
\<close>

function HasNew_scan ::
  "buffer_code \<Rightarrow> CircularMessageArray \<Rightarrow> int \<Rightarrow> nat \<Rightarrow> nat \<Rightarrow> panic + (bool \<times> nat)" where
  "HasNew_scan B b etag ml i =
     (if i < ml - 1 then
        (case load (ignore_err B (Ith b i)) of
           Inl p \<Rightarrow> Inl p
         | Inr ith \<Rightarrow>
             if etag = Created ith then Inr (True, i + 1)
             else HasNew_scan B b etag ml (i + 1))
      else Inr (False, 0))"
  by pat_completeness auto
termination
  by (relation "measure (\<lambda>(B, b, etag, ml, i). ml - 1 - i)") auto

declare HasNew_scan.simps [simp del]

definition HasNew :: "buffer_code \<Rightarrow> Channel \<Rightarrow> int \<Rightarrow> panic + (bool \<times> nat)" where
  "HasNew B c etag =
     (case Messages c of
        None \<Rightarrow> Inr (False, 0)
      | Some b \<Rightarrow>
          if Length b > 0 then
            (case load (ignore_err B (PeekOldest b)) of
               Inl p \<Rightarrow> Inl p
             | Inr oldest \<Rightarrow>
                 if Created oldest > etag then Inr (True, 0)
                 else HasNew_scan B b etag (Length b) 0)
          else Inr (False, 0))"

subsection \<open>The registry\<close>

text \<open>
  The global \<^verbatim>\<open>Channels\<close> maps a name to a pointer to its channel. \<^verbatim>\<open>GetChannel_\<close> is
  the only place that inserts into it, and it stores each new channel under the
  channel's own name, so a channel object is reached through exactly one key and the map
  can hold the channels by value: writing a field through the pointer returned by
  \<^verbatim>\<open>GetChannel_\<close> is an update of the map at that name. The registry is passed in and
  returned. A Go \<^verbatim>\<open>error\<close> is an optional description, \<open>None\<close> for nil.
  \<^verbatim>\<open>GetChannel_\<close> is written \<open>GetChannel'\<close>, a name cannot end in an underscore here.
\<close>

type_synonym registry = "string \<rightharpoonup> Channel"

type_synonym error = "string option"

definition init :: registry where
  "init = Map.empty"

definition GetChannel' :: "registry \<Rightarrow> string \<Rightarrow> registry \<times> Channel" where
  "GetChannel' Channels name =
     (case Channels name of
        Some ch \<Rightarrow> (Channels, ch)
      | None \<Rightarrow>
          (let ch = \<lparr>Name = name, Size = 0, Life = 0, Key = [], Clients = {},
                     Messages = None, One2One = False, inited = False\<rparr>
           in (Channels(name \<mapsto> ch), ch)))"

definition GetChannel :: "registry \<Rightarrow> string \<Rightarrow> registry \<times> Channel" where
  "GetChannel Channels name = GetChannel' Channels name"

definition GetOrCreateChannel ::
  "registry \<Rightarrow> string \<Rightarrow> nat \<Rightarrow> int \<Rightarrow> bool \<Rightarrow> string \<Rightarrow> registry \<times> Channel \<times> error" where
  "GetOrCreateChannel Channels name sz life one2one key =
     (case GetChannel' Channels name of
        (Channels1, ch) \<Rightarrow>
          if \<not> inited ch then
            (let ch1 = ch\<lparr>inited := True, Size := sz, Life := life, One2One := one2one,
                           Key := key, Messages := Some (NewCircularMessageArray sz)\<rparr>
             in (Channels1(name \<mapsto> ch1), ch1, None))
          else (Channels1, ch, None))"

subsection \<open>Pub, Sub, UnSub\<close>

text \<open>
  \<^verbatim>\<open>Pub\<close> is a publish all of whose sends are taken, from its call to its return. It
  returns the channel after the call, the events it sent (one pair of handle and event
  for each send \<^verbatim>\<open>evch <- &ChannelEvent{c, m}\<close>; Go ranges over a map in no fixed order
  and visits each key once, so the sends form a set) and its error result.
  \<^verbatim>\<open>Push\<close> writes through the pointer \<^verbatim>\<open>Messages\<close> and cannot change the pointer: a nil
  pointer stays nil.
\<close>

definition Pub ::
  "buffer_code \<Rightarrow> Channel \<Rightarrow> int \<Rightarrow> bytes \<Rightarrow>
     panic + (Channel \<times> (handle \<times> ChannelEvent) set \<times> error)" where
  "Pub B c now data =
     (let m = \<lparr>Data = data, Created = now\<rparr> in
      case deref B (Messages c) of
        Inl p \<Rightarrow> Inl p
      | Inr _ \<Rightarrow>
          (let c1 = c\<lparr>Messages := map_option (\<lambda>b. Push b m) (Messages c)\<rparr>;
               sent = (\<lambda>evch. (evch, \<lparr>Chan = Name c1, Mesg = m\<rparr>)) ` Clients c1
           in Inr (c1\<lparr>Clients := {}\<rparr>, sent, None)))"

text \<open>
  A handle is a Go channel that a subscriber made. A send \<^verbatim>\<open>evch <- x\<close> goes through at
  once when the channel has a free buffer slot or a receiver waiting on it, and holds
  the sender up otherwise. How many sends a handle takes at once at the time of the call
  is state of the handles, which \<^verbatim>\<open>channels.go\<close> does not see: the parameter \<open>slots\<close>.
  \<^verbatim>\<open>Pub\<close> sends one event to each registered handle, with the plain send of line 85.
  \<open>deliver\<close> is the loop of lines 84 to 86: the events sent when every send goes through,
  \<open>None\<close> when the publisher is held up in a send.
\<close>

definition deliver ::
  "(handle \<Rightarrow> nat) \<Rightarrow> handle set \<Rightarrow> ChannelEvent \<Rightarrow> (handle \<times> ChannelEvent) set option" where
  "deliver slots clients ev =
     (if \<forall>evch\<in>clients. 0 < slots evch then Some ((\<lambda>evch. (evch, ev)) ` clients)
      else None)"

text \<open>
  \<^verbatim>\<open>Pub\<close> with the state of the handles: the result \<open>Inr None\<close> is a publisher held up
  in a send, with the channel's lock taken and before its return.
\<close>

definition Pub_blocking ::
  "buffer_code \<Rightarrow> (handle \<Rightarrow> nat) \<Rightarrow> Channel \<Rightarrow> int \<Rightarrow> bytes \<Rightarrow>
     panic + (Channel \<times> (handle \<times> ChannelEvent) set \<times> error) option" where
  "Pub_blocking B slots c now data =
     (let m = \<lparr>Data = data, Created = now\<rparr> in
      case deref B (Messages c) of
        Inl p \<Rightarrow> Inl p
      | Inr _ \<Rightarrow>
          (let c1 = c\<lparr>Messages := map_option (\<lambda>b. Push b m) (Messages c)\<rparr> in
           case deliver slots (Clients c1) \<lparr>Chan = Name c1, Mesg = m\<rparr> of
             None \<Rightarrow> Inr None
           | Some sent \<Rightarrow> Inr (Some (c1\<lparr>Clients := {}\<rparr>, sent, None))))"

definition Sub :: "Channel \<Rightarrow> handle \<Rightarrow> Channel" where
  "Sub c evch = c\<lparr>Clients := insert evch (Clients c)\<rparr>"

definition UnSub :: "Channel \<Rightarrow> handle \<Rightarrow> Channel" where
  "UnSub c evch = c\<lparr>Clients := Clients c - {evch}\<rparr>"

subsection \<open>Json\<close>



subsection \<open>Append\<close>

text \<open>
  Modelled from the spec: the type \<^verbatim>\<open>ChanResponse\<close>, declared in another file of the
  repository. \<^verbatim>\<open>Append\<close> builds it as \<^verbatim>\<open>&ChanResponse{etag, payload}\<close>: the new etag
  and the ordered payloads of section 4.5, in this order. The field names are chosen
  here.
\<close>

record ChanResponse =
  Etag :: int
  Payload :: "string list"

text \<open>
  Modelled from the spec: the type \<^verbatim>\<open>SubResponse\<close>, declared in another file of the
  repository. \<^verbatim>\<open>Append\<close> uses its field \<^verbatim>\<open>Channels\<close> only, a map from channel names to
  responses, taken to be allocated.
\<close>

record SubResponse =
  Channels :: "string \<rightharpoonup> ChanResponse"

text \<open>
  The loop \<^verbatim>\<open>for i := ith; i < ml; i++\<close> of \<^verbatim>\<open>Append\<close>, from index \<open>i\<close> on, with the
  values of \<^verbatim>\<open>payload\<close> and \<^verbatim>\<open>etag\<close> so far.
\<close>

function Append_loop ::
  "buffer_code \<Rightarrow> CircularMessageArray \<Rightarrow> nat \<Rightarrow> nat \<Rightarrow> string list \<Rightarrow> int \<Rightarrow>
     panic + (string list \<times> int)" where
  "Append_loop B b ml i payload etag =
     (if i < ml then
        (case load (ignore_err B (Ith b i)) of
           Inl p \<Rightarrow> Inl p
         | Inr ithm \<Rightarrow> Append_loop B b ml (i + 1) (payload @ [Data ithm]) (Created ithm))
      else Inr (payload, etag))"
  by pat_completeness auto
termination
  by (relation "measure (\<lambda>(B, b, ml, i, payload, etag). ml - i)") auto

declare Append_loop.simps [simp del]

definition Append :: "buffer_code \<Rightarrow> Channel \<Rightarrow> SubResponse \<Rightarrow> nat \<Rightarrow> panic + SubResponse" where
  "Append B ch resp ith =
     (case deref B (Messages ch) of
        Inl p \<Rightarrow> Inl p
      | Inr b \<Rightarrow>
          (case Append_loop B b (Length b) ith [] 0 of
             Inl p \<Rightarrow> Inl p
           | Inr (payload, etag) \<Rightarrow>
               Inr (resp\<lparr>Channels := (Channels resp)(Name ch \<mapsto> \<lparr>Etag = etag, Payload = payload\<rparr>)\<rparr>)))"

subsection \<open>The invariant of a channel\<close>

text \<open>
  \<^verbatim>\<open>GetOrCreateChannel\<close> is the only writer of \<^verbatim>\<open>inited\<close> and of the pointer
  \<^verbatim>\<open>Messages\<close>, and it sets both at once: a channel marked initialized has its history
  buffer.
\<close>

definition chan_ok :: "Channel \<Rightarrow> bool" where
  "chan_ok c = (inited c \<longrightarrow> Messages c \<noteq> None)"

section \<open>Properties\<close>

subsection \<open>The history buffer\<close>

text \<open>
  The buffer keeps its capacity, and after any sequence of pushes into a new buffer of
  capacity \<open>n\<close> it retains exactly the last \<open>n\<close> messages pushed, oldest first.
\<close>

lemma capacity_Push: "capacity (Push b m) = capacity b"
  by (simp add: Push_def)

lemma retained_Push:
  "length (retained b) \<le> capacity b \<Longrightarrow>
   retained (Push b m) = drop (Suc (length (retained b)) - capacity b) (retained b @ [m])"
  by (cases "retained b") (auto simp: Push_def)

lemma retained_foldl_Push:
  "capacity (foldl Push (NewCircularMessageArray n) ms) = n \<and>
   retained (foldl Push (NewCircularMessageArray n) ms) = drop (length ms - n) ms"
proof (induction ms rule: rev_induct)
  case Nil
  then show ?case by (simp add: NewCircularMessageArray_def)
next
  case (snoc m ms)
  let ?b = "foldl Push (NewCircularMessageArray n) ms"
  have cap: "capacity ?b = n" and ret: "retained ?b = drop (length ms - n) ms"
    using snoc.IH by auto
  have le: "length (retained ?b) \<le> capacity ?b" using cap ret by simp
  have "retained (Push ?b m) = drop (Suc (length (retained ?b)) - n) (retained ?b @ [m])"
    using retained_Push[OF le] cap by simp
  also have "\<dots> = drop (Suc (length ms) - n) (ms @ [m])"
    using ret by (cases "length ms \<le> n") (auto simp: Suc_diff_le)
  finally show ?case using cap by (simp add: capacity_Push)
qed

subsection \<open>The scan of HasNew\<close>

lemma ignore_err_Ith: "i < Length b \<Longrightarrow> load (ignore_err B (Ith b i)) = Inr (retained b ! i)"
  by (simp add: ignore_err_def load_def Ith_def)

lemma ignore_err_PeekOldest:
  "0 < Length b \<Longrightarrow> load (ignore_err B (PeekOldest b)) = Inr (retained b ! 0)"
  by (simp add: ignore_err_def load_def PeekOldest_def)

lemma HasNew_scan_step:
  "i < ml - 1 \<Longrightarrow> i < Length b \<Longrightarrow>
   HasNew_scan B b etag ml i =
     (if etag = Created (retained b ! i) then Inr (True, i + 1)
      else HasNew_scan B b etag ml (i + 1))"
  by (subst HasNew_scan.simps) (simp add: ignore_err_Ith)

lemma HasNew_scan_stop: "\<not> i < ml - 1 \<Longrightarrow> HasNew_scan B b etag ml i = Inr (False, 0)"
  by (subst HasNew_scan.simps) simp

lemma HasNew_scan_none:
  "ml \<le> Length b \<Longrightarrow> (\<forall>j. i \<le> j \<and> j < ml - 1 \<longrightarrow> Created (retained b ! j) \<noteq> etag)
   \<Longrightarrow> HasNew_scan B b etag ml i = Inr (False, 0)"
proof (induction "ml - 1 - i" arbitrary: i)
  case 0
  then show ?case by (simp add: HasNew_scan_stop)
next
  case (Suc n)
  then have lt: "i < ml - 1" and il: "i < Length b" by arith+
  have ne: "etag \<noteq> Created (retained b ! i)" using Suc.prems(2) lt by auto
  have "HasNew_scan B b etag ml (i + 1) = Inr (False, 0)"
    using Suc.hyps(2) Suc.prems by (intro Suc.hyps(1)) auto
  then show ?case using ne by (simp add: HasNew_scan_step[OF lt il])
qed

lemma HasNew_scan_found:
  "ml \<le> Length b \<Longrightarrow> i \<le> f \<Longrightarrow> f < ml - 1 \<Longrightarrow> Created (retained b ! f) = etag
   \<Longrightarrow> (\<forall>j. i \<le> j \<and> j < f \<longrightarrow> Created (retained b ! j) \<noteq> etag)
   \<Longrightarrow> HasNew_scan B b etag ml i = Inr (True, f + 1)"
proof (induction "f - i" arbitrary: i)
  case 0
  then have eq: "f = i" and lt: "i < ml - 1" and il: "i < Length b" by arith+
  show ?case using "0.prems"(4) unfolding eq by (simp add: HasNew_scan_step[OF lt il])
next
  case (Suc n)
  then have lt: "i < ml - 1" and il: "i < Length b" and "i < f" by arith+
  then have ne: "etag \<noteq> Created (retained b ! i)" using Suc.prems(5) by auto
  have "HasNew_scan B b etag ml (i + 1) = Inr (True, f + 1)"
    using Suc.hyps(2) Suc.prems by (intro Suc.hyps(1)) auto
  then show ?case using ne by (simp add: HasNew_scan_step[OF lt il])
qed

lemma HasNew_scan_result:
  "ml \<le> Length b \<Longrightarrow>
   HasNew_scan B b etag ml i = Inr (False, 0) \<or>
   (\<exists>k. HasNew_scan B b etag ml i = Inr (True, k) \<and> i < k \<and> k < ml)"
proof (induction "ml - 1 - i" arbitrary: i)
  case 0
  then show ?case by (simp add: HasNew_scan_stop)
next
  case (Suc n)
  then have lt: "i < ml - 1" and il: "i < Length b" by arith+
  have IH: "HasNew_scan B b etag ml (i + 1) = Inr (False, 0) \<or>
    (\<exists>k. HasNew_scan B b etag ml (i + 1) = Inr (True, k) \<and> i + 1 < k \<and> k < ml)"
    using Suc.hyps(2) Suc.prems by (intro Suc.hyps(1)) auto
  show ?case
  proof (cases "etag = Created (retained b ! i)")
    case True
    then show ?thesis using lt by (simp add: HasNew_scan_step[OF lt il])
  next
    case False
    then show ?thesis using IH by (auto simp add: HasNew_scan_step[OF lt il])
  qed
qed


lemma HasNew_no_panic: "\<exists>r. HasNew B c etag = Inr r"
proof (cases "Messages c")
  case None
  then have "HasNew B c etag = Inr (False, 0)" by (simp add: HasNew_def)
  then show ?thesis by blast
next
  case (Some b)
  show ?thesis
  proof (cases "0 < Length b")
    case True
    have "\<exists>r. HasNew_scan B b etag (Length b) 0 = Inr r"
      using HasNew_scan_result[of "Length b" b B etag 0] by auto
    then show ?thesis
      using Some True by (auto simp: HasNew_def ignore_err_PeekOldest)
  next
    case False
    then have "HasNew B c etag = Inr (False, 0)" using Some by (simp add: HasNew_def)
    then show ?thesis by blast
  qed
qed

lemma Ith_Inr: "Ith b i = Inr m \<longleftrightarrow> i < Length b \<and> m = retained b ! i"
  by (auto simp: Ith_def)

subsection \<open>The catch-up decision\<close>

text \<open>
  C1. For every channel with non-empty history and every etag other than 0 that is not
  older than the oldest retained message: let \<open>f\<close> be the index of the first retained
  message whose \<^verbatim>\<open>Created\<close> equals etag. When \<open>f\<close> is not the newest index,
  \<^verbatim>\<open>HasNew(etag)\<close> returns \<open>(true, f + 1)\<close>; when \<open>f\<close> is the newest index, it returns
  \<open>hasNew = false\<close> (with index 0).
\<close>

theorem HasNew_first_match:
  assumes "Messages c = Some b" and "0 < Length b" and "etag \<noteq> 0"
    and "PeekOldest b = Inr oldest" and "Created oldest \<le> etag"
    and "Ith b f = Inr m" and "Created m = etag"
    and "\<forall>j<f. \<forall>mj. Ith b j = Inr mj \<longrightarrow> Created mj \<noteq> etag"
  shows "(f < Length b - 1 \<longrightarrow> HasNew B c etag = Inr (True, f + 1)) \<and>
         (f = Length b - 1 \<longrightarrow> HasNew B c etag = Inr (False, 0))"
proof -
  have fl: "f < Length b" and fm: "Created (retained b ! f) = etag"
    using assms(6,7) by (auto simp: Ith_Inr)
  have before: "\<forall>j. 0 \<le> j \<and> j < f \<longrightarrow> Created (retained b ! j) \<noteq> etag"
    using assms(8) fl by (auto simp: Ith_Inr)
  have old: "\<not> etag < Created (retained b ! 0)"
    using assms(2,4,5) by (auto simp: PeekOldest_def)
  have start: "HasNew B c etag = HasNew_scan B b etag (Length b) 0"
    using assms(1,2) old by (simp add: HasNew_def ignore_err_PeekOldest)
  have "HasNew_scan B b etag (Length b) 0 = Inr (True, f + 1)" if "f < Length b - 1"
    using that fm before by (intro HasNew_scan_found) auto
  moreover have "HasNew_scan B b etag (Length b) 0 = Inr (False, 0)" if "f = Length b - 1"
    using that before by (intro HasNew_scan_none) auto
  ultimately show ?thesis using start by simp
qed

theorem HasNew_first_match_witness:
  "HasNew \<lparr>failed_read = \<lambda>e. None, nil_receiver = None\<rparr>
     \<lparr>Name = ''ch'', Size = 3, Life = 0, Key = [], Clients = {},
      Messages = Some \<lparr>capacity = 3, retained =
        [\<lparr>Data = ''b'', Created = 20\<rparr>, \<lparr>Data = ''c'', Created = 30\<rparr>,
         \<lparr>Data = ''d'', Created = 40\<rparr>]\<rparr>,
      One2One = False, inited = True\<rparr> 30 = Inr (True, 2) \<and>
   HasNew \<lparr>failed_read = \<lambda>e. None, nil_receiver = None\<rparr>
     \<lparr>Name = ''ch'', Size = 3, Life = 0, Key = [], Clients = {},
      Messages = Some \<lparr>capacity = 3, retained =
        [\<lparr>Data = ''b'', Created = 20\<rparr>, \<lparr>Data = ''c'', Created = 30\<rparr>,
         \<lparr>Data = ''d'', Created = 40\<rparr>]\<rparr>,
      One2One = False, inited = True\<rparr> 40 = Inr (False, 0)"
  using
    HasNew_first_match [of
      "\<lparr>Name = ''ch'', Size = 3, Life = 0, Key = [], Clients = {},
        Messages = Some \<lparr>capacity = 3, retained =
          [\<lparr>Data = ''b'', Created = 20\<rparr>, \<lparr>Data = ''c'', Created = 30\<rparr>,
           \<lparr>Data = ''d'', Created = 40\<rparr>]\<rparr>,
        One2One = False, inited = True\<rparr>"
      "\<lparr>capacity = 3, retained =
          [\<lparr>Data = ''b'', Created = 20\<rparr>, \<lparr>Data = ''c'', Created = 30\<rparr>,
           \<lparr>Data = ''d'', Created = 40\<rparr>]\<rparr>"
      30 "\<lparr>Data = ''b'', Created = 20\<rparr>" 1 "\<lparr>Data = ''c'', Created = 30\<rparr>"
      "\<lparr>failed_read = \<lambda>e. None, nil_receiver = None\<rparr>"]
    HasNew_first_match [of
      "\<lparr>Name = ''ch'', Size = 3, Life = 0, Key = [], Clients = {},
        Messages = Some \<lparr>capacity = 3, retained =
          [\<lparr>Data = ''b'', Created = 20\<rparr>, \<lparr>Data = ''c'', Created = 30\<rparr>,
           \<lparr>Data = ''d'', Created = 40\<rparr>]\<rparr>,
        One2One = False, inited = True\<rparr>"
      "\<lparr>capacity = 3, retained =
          [\<lparr>Data = ''b'', Created = 20\<rparr>, \<lparr>Data = ''c'', Created = 30\<rparr>,
           \<lparr>Data = ''d'', Created = 40\<rparr>]\<rparr>"
      40 "\<lparr>Data = ''b'', Created = 20\<rparr>" 2 "\<lparr>Data = ''d'', Created = 40\<rparr>"
      "\<lparr>failed_read = \<lambda>e. None, nil_receiver = None\<rparr>"]
  by (simp add: Length_def PeekOldest_def Ith_def less_Suc_eq numeral_2_eq_2 all_conj_distrib)

text \<open>
  C2. For every channel with non-empty history and every etag other than 0: when the
  oldest retained message was created strictly after etag, \<^verbatim>\<open>HasNew(etag)\<close> returns
  \<open>(true, 0)\<close>, a full resync from the oldest retained message.
\<close>

theorem HasNew_evicted:
  assumes "Messages c = Some b" and "0 < Length b" and "etag \<noteq> 0"
    and "PeekOldest b = Inr oldest" and "etag < Created oldest"
  shows "HasNew B c etag = Inr (True, 0)"
  using assms by (simp add: HasNew_def ignore_err_def load_def)

theorem HasNew_evicted_witness:
  "HasNew \<lparr>failed_read = \<lambda>e. None, nil_receiver = None\<rparr>
     \<lparr>Name = ''ch'', Size = 3, Life = 0, Key = [], Clients = {},
      Messages = Some \<lparr>capacity = 3, retained =
        [\<lparr>Data = ''b'', Created = 20\<rparr>, \<lparr>Data = ''c'', Created = 30\<rparr>,
         \<lparr>Data = ''d'', Created = 40\<rparr>]\<rparr>,
      One2One = False, inited = True\<rparr> 10 = Inr (True, 0)"
  using
    HasNew_evicted [of
      "\<lparr>Name = ''ch'', Size = 3, Life = 0, Key = [], Clients = {},
        Messages = Some \<lparr>capacity = 3, retained =
          [\<lparr>Data = ''b'', Created = 20\<rparr>, \<lparr>Data = ''c'', Created = 30\<rparr>,
           \<lparr>Data = ''d'', Created = 40\<rparr>]\<rparr>,
        One2One = False, inited = True\<rparr>"
      "\<lparr>capacity = 3, retained =
          [\<lparr>Data = ''b'', Created = 20\<rparr>, \<lparr>Data = ''c'', Created = 30\<rparr>,
           \<lparr>Data = ''d'', Created = 40\<rparr>]\<rparr>"
      10 "\<lparr>Data = ''b'', Created = 20\<rparr>" "\<lparr>failed_read = \<lambda>e. None, nil_receiver = None\<rparr>"]
  by (simp add: Length_def PeekOldest_def)

subsection \<open>Collecting the backlog\<close>

lemma Append_loop_step:
  "i < ml \<Longrightarrow> i < Length b \<Longrightarrow>
   Append_loop B b ml i payload etag =
     Append_loop B b ml (i + 1) (payload @ [Data (retained b ! i)]) (Created (retained b ! i))"
  by (subst Append_loop.simps) (simp add: ignore_err_Ith)

lemma Append_loop_stop: "\<not> i < ml \<Longrightarrow> Append_loop B b ml i payload etag = Inr (payload, etag)"
  by (subst Append_loop.simps) simp

lemma Append_loop_collects:
  "Append_loop B b (Length b) i payload etag =
     Inr (payload @ map Data (drop i (retained b)),
          if i < Length b then Created (retained b ! (Length b - 1)) else etag)"
proof (induction "Length b - i" arbitrary: i payload etag)
  case 0
  then show ?case by (simp add: Append_loop_stop Length_def)
next
  case (Suc n)
  then have il: "i < Length b" by arith
  have dr: "drop i (retained b) = retained b ! i # drop (Suc i) (retained b)"
    using il by (simp add: Length_def Cons_nth_drop_Suc)
  have IH: "Append_loop B b (Length b) (i + 1) (payload @ [Data (retained b ! i)])
      (Created (retained b ! i)) =
     Inr ((payload @ [Data (retained b ! i)]) @ map Data (drop (i + 1) (retained b)),
          if i + 1 < Length b then Created (retained b ! (Length b - 1))
          else Created (retained b ! i))"
    using Suc.hyps(2) by (intro Suc.hyps(1)) arith
  have last: "\<not> i + 1 < Length b \<Longrightarrow> Length b - 1 = i" using il by arith
  show ?case
    using IH il last by (auto simp add: Append_loop_step[OF il il] dr)
qed

text \<open>
  C4, as the code has it. For every channel with non-empty history: when \<open>ith\<close> is a
  retained index, \<^verbatim>\<open>Append\<close> stores under the channel's name the payloads of the
  retained messages from \<open>ith\<close> to the newest, in order, and the newest message's
  \<^verbatim>\<open>Created\<close> as the new etag; when \<open>ith\<close> is past the newest retained index, it
  stores no payload and the etag 0.
\<close>

theorem Append_collects:
  assumes "Messages ch = Some b" and "0 < Length b" and "PeekNewest b = Inr newest"
  shows "(ith < Length b \<longrightarrow>
            Append B ch resp ith =
              Inr (resp\<lparr>Channels := (Channels resp)(Name ch \<mapsto>
                    \<lparr>Etag = Created newest,
                     Payload = map Data (drop ith (retained b))\<rparr>)\<rparr>)) \<and>
         (Length b \<le> ith \<longrightarrow>
            Append B ch resp ith =
              Inr (resp\<lparr>Channels := (Channels resp)(Name ch \<mapsto>
                    \<lparr>Etag = 0, Payload = []\<rparr>)\<rparr>))"
proof -
  have nw: "newest = retained b ! (Length b - 1)"
    using assms(2,3) by (auto simp: PeekNewest_def)
  have past: "Length b \<le> ith \<Longrightarrow> drop ith (retained b) = []"
    by (simp add: Length_def)
  show ?thesis
    using assms(1) nw past by (auto simp: Append_def deref_def Append_loop_collects)
qed

theorem Append_collects_witness:
  "Append \<lparr>failed_read = \<lambda>e. None, nil_receiver = None\<rparr>
     \<lparr>Name = ''ch'', Size = 3, Life = 0, Key = [], Clients = {},
      Messages = Some \<lparr>capacity = 3, retained =
        [\<lparr>Data = ''b'', Created = 20\<rparr>, \<lparr>Data = ''c'', Created = 30\<rparr>,
         \<lparr>Data = ''d'', Created = 40\<rparr>]\<rparr>,
      One2One = False, inited = True\<rparr> \<lparr>Channels = Map.empty\<rparr> 1 =
     Inr \<lparr>Channels = [''ch'' \<mapsto> \<lparr>Etag = 40, Payload = [''c'', ''d'']\<rparr>]\<rparr> \<and>
   Append \<lparr>failed_read = \<lambda>e. None, nil_receiver = None\<rparr>
     \<lparr>Name = ''ch'', Size = 3, Life = 0, Key = [], Clients = {},
      Messages = Some \<lparr>capacity = 3, retained =
        [\<lparr>Data = ''b'', Created = 20\<rparr>, \<lparr>Data = ''c'', Created = 30\<rparr>,
         \<lparr>Data = ''d'', Created = 40\<rparr>]\<rparr>,
      One2One = False, inited = True\<rparr> \<lparr>Channels = Map.empty\<rparr> 3 =
     Inr \<lparr>Channels = [''ch'' \<mapsto> \<lparr>Etag = 0, Payload = []\<rparr>]\<rparr>"
  using
    Append_collects [of
      "\<lparr>Name = ''ch'', Size = 3, Life = 0, Key = [], Clients = {},
        Messages = Some \<lparr>capacity = 3, retained =
          [\<lparr>Data = ''b'', Created = 20\<rparr>, \<lparr>Data = ''c'', Created = 30\<rparr>,
           \<lparr>Data = ''d'', Created = 40\<rparr>]\<rparr>,
        One2One = False, inited = True\<rparr>"
      "\<lparr>capacity = 3, retained =
          [\<lparr>Data = ''b'', Created = 20\<rparr>, \<lparr>Data = ''c'', Created = 30\<rparr>,
           \<lparr>Data = ''d'', Created = 40\<rparr>]\<rparr>"
      "\<lparr>Data = ''d'', Created = 40\<rparr>" 1 "\<lparr>failed_read = \<lambda>e. None, nil_receiver = None\<rparr>"
      "\<lparr>Channels = Map.empty\<rparr>"]
    Append_collects [of
      "\<lparr>Name = ''ch'', Size = 3, Life = 0, Key = [], Clients = {},
        Messages = Some \<lparr>capacity = 3, retained =
          [\<lparr>Data = ''b'', Created = 20\<rparr>, \<lparr>Data = ''c'', Created = 30\<rparr>,
           \<lparr>Data = ''d'', Created = 40\<rparr>]\<rparr>,
        One2One = False, inited = True\<rparr>"
      "\<lparr>capacity = 3, retained =
          [\<lparr>Data = ''b'', Created = 20\<rparr>, \<lparr>Data = ''c'', Created = 30\<rparr>,
           \<lparr>Data = ''d'', Created = 40\<rparr>]\<rparr>"
      "\<lparr>Data = ''d'', Created = 40\<rparr>" 3 "\<lparr>failed_read = \<lambda>e. None, nil_receiver = None\<rparr>"
      "\<lparr>Channels = Map.empty\<rparr>"]
  by (simp add: Length_def PeekNewest_def)

text \<open>
  C4 as stated asks for the newest message's \<^verbatim>\<open>Created\<close> also when the start index is
  past the newest retained index. The loop body that sets \<^verbatim>\<open>etag\<close> never runs then:
  on a history of one message created at 5, \<^verbatim>\<open>Append\<close> from index 1 stores the etag 0.
\<close>

theorem Append_past_newest_counterexample:
  "0 < Length \<lparr>capacity = 1, retained = [\<lparr>Data = ''a'', Created = 5\<rparr>]\<rparr> \<and>
   PeekNewest \<lparr>capacity = 1, retained = [\<lparr>Data = ''a'', Created = 5\<rparr>]\<rparr> =
     Inr \<lparr>Data = ''a'', Created = 5\<rparr> \<and>
   Append \<lparr>failed_read = \<lambda>e. None, nil_receiver = None\<rparr>
     \<lparr>Name = ''ch'', Size = 1, Life = 0, Key = [], Clients = {},
      Messages = Some \<lparr>capacity = 1, retained = [\<lparr>Data = ''a'', Created = 5\<rparr>]\<rparr>,
      One2One = False, inited = True\<rparr> \<lparr>Channels = Map.empty\<rparr> 1 =
     Inr \<lparr>Channels = [''ch'' \<mapsto> \<lparr>Etag = 0, Payload = []\<rparr>]\<rparr>"
  by (simp add: PeekNewest_def Length_def Append_def deref_def Append_loop_stop)

subsection \<open>The resume index\<close>

text \<open>
  C9. Whenever \<^verbatim>\<open>HasNew(etag)\<close> returns \<open>hasNew = true\<close> with resume index \<open>i\<close>, the
  history buffer is configured and non-empty and \<open>i\<close> is a retained index
  (\<open>i < Length()\<close>): \<^verbatim>\<open>Append\<close> from \<open>i\<close> on the same state succeeds and collects the
  messages from \<open>i\<close> on, at least one.
\<close>

theorem HasNew_resume_index_valid:
  assumes "HasNew B c etag = Inr (True, i)"
  shows "\<exists>b. Messages c = Some b \<and> 0 < Length b \<and> i < Length b \<and>
           (\<forall>resp. \<exists>resp' r. Append B c resp i = Inr resp' \<and>
              Channels resp' (Name c) = Some r \<and>
              Payload r = map Data (drop i (retained b)) \<and> Payload r \<noteq> [])"
proof (cases "Messages c")
  case None
  then show ?thesis using assms by (simp add: HasNew_def)
next
  case (Some b)
  have pos: "0 < Length b"
    using assms Some by (auto simp: HasNew_def split: if_splits)
  have il: "i < Length b"
  proof (cases "etag < Created (retained b ! 0)")
    case True
    then have "HasNew B c etag = Inr (True, 0)"
      using Some pos by (simp add: HasNew_def ignore_err_PeekOldest)
    then show ?thesis using assms pos by simp
  next
    case False
    then have "HasNew B c etag = HasNew_scan B b etag (Length b) 0"
      using Some pos by (simp add: HasNew_def ignore_err_PeekOldest)
    then show ?thesis
      using assms HasNew_scan_result[of "Length b" b B etag 0] by auto
  qed
  have ne: "map Data (drop i (retained b)) \<noteq> []"
    using il by (simp add: Length_def)
  have "\<exists>resp' r. Append B c resp i = Inr resp' \<and> Channels resp' (Name c) = Some r \<and>
          Payload r = map Data (drop i (retained b)) \<and> Payload r \<noteq> []" for resp
    using Some ne by (simp add: Append_def deref_def Append_loop_collects)
  then show ?thesis using Some pos il by blast
qed

theorem HasNew_resume_index_valid_witness:
  "HasNew \<lparr>failed_read = \<lambda>e. None, nil_receiver = None\<rparr>
     \<lparr>Name = ''ch'', Size = 3, Life = 0, Key = [], Clients = {},
      Messages = Some \<lparr>capacity = 3, retained =
        [\<lparr>Data = ''b'', Created = 20\<rparr>, \<lparr>Data = ''c'', Created = 30\<rparr>,
         \<lparr>Data = ''d'', Created = 40\<rparr>]\<rparr>,
      One2One = False, inited = True\<rparr> 30 = Inr (True, 2) \<and>
   (\<exists>b. Messages \<lparr>Name = ''ch'', Size = 3, Life = 0, Key = [], Clients = {},
      Messages = Some \<lparr>capacity = 3, retained =
        [\<lparr>Data = ''b'', Created = 20\<rparr>, \<lparr>Data = ''c'', Created = 30\<rparr>,
         \<lparr>Data = ''d'', Created = 40\<rparr>]\<rparr>,
      One2One = False, inited = True\<rparr> = Some b \<and> 0 < Length b \<and> 2 < Length b \<and>
      (\<forall>resp. \<exists>resp' r. Append \<lparr>failed_read = \<lambda>e. None, nil_receiver = None\<rparr>
     \<lparr>Name = ''ch'', Size = 3, Life = 0, Key = [], Clients = {},
          Messages = Some \<lparr>capacity = 3, retained =
            [\<lparr>Data = ''b'', Created = 20\<rparr>, \<lparr>Data = ''c'', Created = 30\<rparr>,
             \<lparr>Data = ''d'', Created = 40\<rparr>]\<rparr>,
          One2One = False, inited = True\<rparr> resp 2 = Inr resp' \<and>
        Channels resp' ''ch'' = Some r \<and>
        Payload r = map Data (drop 2 (retained b)) \<and> Payload r \<noteq> []))"
proof -
  have h: "HasNew \<lparr>failed_read = \<lambda>e. None, nil_receiver = None\<rparr>
     \<lparr>Name = ''ch'', Size = 3, Life = 0, Key = [], Clients = {},
      Messages = Some \<lparr>capacity = 3, retained =
        [\<lparr>Data = ''b'', Created = 20\<rparr>, \<lparr>Data = ''c'', Created = 30\<rparr>,
         \<lparr>Data = ''d'', Created = 40\<rparr>]\<rparr>,
      One2One = False, inited = True\<rparr> 30 = Inr (True, 2)"
    by (simp add: HasNew_def Length_def ignore_err_def load_def PeekOldest_def Ith_def
        HasNew_scan.simps)
  show ?thesis using h HasNew_resume_index_valid [OF h] by simp
qed

subsection \<open>The etag 0\<close>

text \<open>
  C3, as the code has it. \<^verbatim>\<open>HasNew(0)\<close> returns \<open>(false, 0)\<close> when the history buffer is
  nil or empty, and \<open>(true, 0)\<close> when the oldest retained message has a positive
  \<^verbatim>\<open>Created\<close>, as every stamp taken by a clock after the Unix epoch has. The code has
  no case of its own for the etag 0: it is compared with the stamps like any other.
\<close>

theorem HasNew_zero:
  "(Messages c = None \<longrightarrow> HasNew B c 0 = Inr (False, 0)) \<and>
   (\<forall>b. Messages c = Some b \<and> Length b = 0 \<longrightarrow> HasNew B c 0 = Inr (False, 0)) \<and>
   (\<forall>b oldest. Messages c = Some b \<and> PeekOldest b = Inr oldest \<and> 0 < Created oldest \<longrightarrow>
      HasNew B c 0 = Inr (True, 0))"
  by (auto simp: HasNew_def ignore_err_def load_def PeekOldest_def split: if_splits)

theorem HasNew_zero_witness:
  "HasNew \<lparr>failed_read = \<lambda>e. None, nil_receiver = None\<rparr>
     \<lparr>Name = ''ch'', Size = 0, Life = 0, Key = [], Clients = {},
      Messages = None, One2One = False, inited = False\<rparr> 0 = Inr (False, 0) \<and>
   HasNew \<lparr>failed_read = \<lambda>e. None, nil_receiver = None\<rparr>
     \<lparr>Name = ''ch'', Size = 3, Life = 0, Key = [], Clients = {},
      Messages = Some \<lparr>capacity = 3, retained = []\<rparr>,
      One2One = False, inited = True\<rparr> 0 = Inr (False, 0) \<and>
   HasNew \<lparr>failed_read = \<lambda>e. None, nil_receiver = None\<rparr>
     \<lparr>Name = ''ch'', Size = 3, Life = 0, Key = [], Clients = {},
      Messages = Some \<lparr>capacity = 3, retained =
        [\<lparr>Data = ''b'', Created = 20\<rparr>, \<lparr>Data = ''c'', Created = 30\<rparr>]\<rparr>,
      One2One = False, inited = True\<rparr> 0 = Inr (True, 0)"
  using
    HasNew_zero [of "\<lparr>Name = ''ch'', Size = 0, Life = 0, Key = [], Clients = {},
      Messages = None, One2One = False, inited = False\<rparr>"
      "\<lparr>failed_read = \<lambda>e. None, nil_receiver = None\<rparr>"]
    HasNew_zero [of "\<lparr>Name = ''ch'', Size = 3, Life = 0, Key = [], Clients = {},
      Messages = Some \<lparr>capacity = 3, retained = []\<rparr>,
      One2One = False, inited = True\<rparr>"
      "\<lparr>failed_read = \<lambda>e. None, nil_receiver = None\<rparr>"]
    HasNew_zero [of "\<lparr>Name = ''ch'', Size = 3, Life = 0, Key = [], Clients = {},
      Messages = Some \<lparr>capacity = 3, retained =
        [\<lparr>Data = ''b'', Created = 20\<rparr>, \<lparr>Data = ''c'', Created = 30\<rparr>]\<rparr>,
      One2One = False, inited = True\<rparr>"
      "\<lparr>failed_read = \<lambda>e. None, nil_receiver = None\<rparr>"]
  by (simp add: Length_def PeekOldest_def)

text \<open>
  C3 as stated, for every channel state, fails where the oldest stamp is not positive:
  after \<^verbatim>\<open>Pub\<close> at clock reading 0 on a fresh channel of capacity 1 the history holds
  one message and \<^verbatim>\<open>HasNew(0)\<close> returns \<open>(false, 0)\<close>.
\<close>

theorem HasNew_zero_counterexample:
  "Pub \<lparr>failed_read = \<lambda>e. None, nil_receiver = None\<rparr>
     \<lparr>Name = ''ch'', Size = 1, Life = 0, Key = [], Clients = {},
      Messages = Some (NewCircularMessageArray 1), One2One = False, inited = True\<rparr>
     0 ''a'' =
     Inr (\<lparr>Name = ''ch'', Size = 1, Life = 0, Key = [], Clients = {},
        Messages = Some \<lparr>capacity = 1, retained = [\<lparr>Data = ''a'', Created = 0\<rparr>]\<rparr>,
        One2One = False, inited = True\<rparr>, {}, None) \<and>
   0 < Length \<lparr>capacity = 1, retained = [\<lparr>Data = ''a'', Created = 0\<rparr>]\<rparr> \<and>
   HasNew \<lparr>failed_read = \<lambda>e. None, nil_receiver = None\<rparr>
     \<lparr>Name = ''ch'', Size = 1, Life = 0, Key = [], Clients = {},
      Messages = Some \<lparr>capacity = 1, retained = [\<lparr>Data = ''a'', Created = 0\<rparr>]\<rparr>,
      One2One = False, inited = True\<rparr> 0 = Inr (False, 0)"
  by (simp add: Pub_def deref_def Push_def NewCircularMessageArray_def Length_def HasNew_def
      ignore_err_def load_def PeekOldest_def HasNew_scan_stop)

subsection \<open>The registry and the invariant\<close>

lemma GetChannel'_lookup:
  "GetChannel' reg name = (reg', ch) \<Longrightarrow> reg' name = Some ch"
  by (auto simp: GetChannel'_def Let_def split: option.splits)

lemma chan_ok_GetChannel':
  assumes "\<forall>n c. reg n = Some c \<longrightarrow> chan_ok c" and "GetChannel' reg name = (reg', ch)"
  shows "chan_ok ch \<and> (\<forall>n c. reg' n = Some c \<longrightarrow> chan_ok c)"
  using assms by (auto simp: GetChannel'_def Let_def chan_ok_def split: option.splits if_splits)

lemma chan_ok_GetOrCreateChannel:
  assumes "\<forall>n c. reg n = Some c \<longrightarrow> chan_ok c"
    and "GetOrCreateChannel reg name sz life one2one key = (reg', ch, err)"
  shows "chan_ok ch \<and> inited ch \<and> (\<forall>n c. reg' n = Some c \<longrightarrow> chan_ok c)"
proof -
  obtain reg1 ch0 where g: "GetChannel' reg name = (reg1, ch0)"
    by (cases "GetChannel' reg name") auto
  have ok: "chan_ok ch0" "\<forall>n c. reg1 n = Some c \<longrightarrow> chan_ok c"
    using chan_ok_GetChannel'[OF assms(1) g] by auto
  show ?thesis
  proof (cases "inited ch0")
    case True
    then show ?thesis using assms(2) g ok by (auto simp: GetOrCreateChannel_def)
  next
    case False
    then show ?thesis
      using assms(2) g ok(2)
      by (auto simp: GetOrCreateChannel_def Let_def chan_ok_def split: if_splits)
  qed
qed

lemma chan_ok_Pub:
  "chan_ok c \<Longrightarrow> Pub B c now data = Inr (c', sent, err) \<Longrightarrow> chan_ok c' \<and> inited c' = inited c"
  by (auto simp: Pub_def deref_def Let_def chan_ok_def split: option.splits)

lemma chan_ok_Sub: "chan_ok c \<Longrightarrow> chan_ok (Sub c evch) \<and> chan_ok (UnSub c evch)"
  by (simp add: chan_ok_def Sub_def UnSub_def)


lemma Length_Push:
  "length (retained b) \<le> capacity b \<Longrightarrow>
   Length (Push b m) = min (capacity b) (Length b + 1) \<and> capacity (Push b m) = capacity b"
  by (auto simp: Push_def Length_def)

subsection \<open>Publishing\<close>



subsection \<open>Publishing and the handles\<close>

lemma deliver_None: "deliver slots clients ev = None \<longleftrightarrow> (\<exists>evch\<in>clients. slots evch = 0)"
  by (auto simp: deliver_def)

lemma Pub_blocking_Pub:
  "Pub_blocking B slots c now data =
     (case Pub B c now data of
        Inl p \<Rightarrow> Inl p
      | Inr r \<Rightarrow> if \<forall>evch\<in>Clients c. 0 < slots evch then Inr (Some r) else Inr None)"
  by (auto simp: Pub_blocking_def Pub_def deliver_def Let_def split: sum.splits)

text \<open>
  C6, as the code has it. Whenever \<^verbatim>\<open>Pub\<close> returns, it returns a nil error. It returns,
  for every payload and clock reading, on every channel whose history buffer is
  configured and whose registered handles each take a send at once, so on every
  configured channel without waiters.
\<close>

theorem Pub_nil_error:
  "(\<forall>c' sent err.
      Pub_blocking B slots c now data = Inr (Some (c', sent, err)) \<longrightarrow> err = None) \<and>
   (Messages c \<noteq> None \<and> (\<forall>evch\<in>Clients c. 0 < slots evch) \<longrightarrow>
      (\<exists>c' sent. Pub_blocking B slots c now data = Inr (Some (c', sent, None))))"
  by (auto simp: Pub_blocking_def deref_def deliver_def Let_def split: sum.splits option.splits)

theorem Pub_nil_error_witness:
  "\<exists>c' sent. Pub_blocking \<lparr>failed_read = \<lambda>e. None, nil_receiver = None\<rparr> (\<lambda>evch. 1)
     \<lparr>Name = ''ch'', Size = 2, Life = 0, Key = [], Clients = {1, 2},
      Messages = Some \<lparr>capacity = 2, retained = [\<lparr>Data = ''a'', Created = 10\<rparr>]\<rparr>,
      One2One = False, inited = True\<rparr> 20 ''b'' = Inr (Some (c', sent, None))"
  using Pub_nil_error [of "\<lparr>failed_read = \<lambda>e. None, nil_receiver = None\<rparr>" "\<lambda>evch. 1"
      "\<lparr>Name = ''ch'', Size = 2, Life = 0, Key = [], Clients = {1, 2},
      Messages = Some \<lparr>capacity = 2, retained = [\<lparr>Data = ''a'', Created = 10\<rparr>]\<rparr>,
      One2One = False, inited = True\<rparr>" 20 "''b''"]
  by simp

text \<open>
  C6 as stated, for every channel, fails on a channel with a waiter whose handle does not
  take the send: of the two registered handles only handle 1 has a free slot, and
  \<^verbatim>\<open>Pub\<close> is held up in the send to handle 2 and does not return.
\<close>

theorem Pub_held_up_counterexample:
  "Pub_blocking \<lparr>failed_read = \<lambda>e. None, nil_receiver = None\<rparr> (\<lambda>evch. if evch = 1 then 1 else 0)
     \<lparr>Name = ''ch'', Size = 2, Life = 0, Key = [], Clients = {1, 2},
      Messages = Some \<lparr>capacity = 2, retained = [\<lparr>Data = ''a'', Created = 10\<rparr>]\<rparr>,
      One2One = False, inited = True\<rparr> 20 ''b'' = Inr None"
  by (simp add: Pub_blocking_def deref_def deliver_def)

text \<open>
  C5, as the code has it. \<^verbatim>\<open>Pub\<close> is held up only in a send to a registered handle
  that does not take it at once (no free buffer slot and no receiver waiting), and on a
  configured channel it is held up whenever there is such a handle; it is not held up
  when nobody is subscribed. The channel state and the error that \<^verbatim>\<open>Pub\<close> returns are
  the same whoever is subscribed.
\<close>

theorem Pub_held_up_iff:
  "(Pub_blocking B slots c now data = Inr None \<longrightarrow> (\<exists>evch\<in>Clients c. slots evch = 0)) \<and>
   (Messages c \<noteq> None \<and> (\<exists>evch\<in>Clients c. slots evch = 0) \<longrightarrow>
      Pub_blocking B slots c now data = Inr None) \<and>
   (Clients c = {} \<longrightarrow> Pub_blocking B slots c now data \<noteq> Inr None) \<and>
   map_sum id (\<lambda>(c', sent, err). (c', err)) (Pub B (c\<lparr>Clients := waiters\<rparr>) now data) =
     map_sum id (\<lambda>(c', sent, err). (c', err)) (Pub B c now data)"
  by (auto simp: Pub_blocking_def Pub_def deref_def deliver_def Let_def
      split: sum.splits option.splits)

theorem Pub_held_up_iff_witness:
  "Pub_blocking \<lparr>failed_read = \<lambda>e. None, nil_receiver = None\<rparr> (\<lambda>evch. 0)
     (Sub \<lparr>Name = ''ch'', Size = 1, Life = 0, Key = [], Clients = {},
      Messages = Some (NewCircularMessageArray 1), One2One = False, inited = True\<rparr> 7) 5 ''a'' = Inr None \<and>
   Pub_blocking \<lparr>failed_read = \<lambda>e. None, nil_receiver = None\<rparr> (\<lambda>evch. 0)
     \<lparr>Name = ''ch'', Size = 1, Life = 0, Key = [], Clients = {},
      Messages = Some (NewCircularMessageArray 1), One2One = False, inited = True\<rparr> 5 ''a'' \<noteq> Inr None"
  using
    Pub_held_up_iff [of "\<lparr>failed_read = \<lambda>e. None, nil_receiver = None\<rparr>" "\<lambda>evch. 0"
      "Sub \<lparr>Name = ''ch'', Size = 1, Life = 0, Key = [], Clients = {},
      Messages = Some (NewCircularMessageArray 1), One2One = False, inited = True\<rparr> 7" 5 "''a''" "{}"]
    Pub_held_up_iff [of "\<lparr>failed_read = \<lambda>e. None, nil_receiver = None\<rparr>" "\<lambda>evch. 0"
      "\<lparr>Name = ''ch'', Size = 1, Life = 0, Key = [], Clients = {},
      Messages = Some (NewCircularMessageArray 1), One2One = False, inited = True\<rparr>" 5 "''a''" "{}"]
  by (simp add: Sub_def)

text \<open>
  C5 as stated, that delivery never holds the publisher up, fails on the plain send of
  line 85: with one subscribed handle that has no buffer and no receiver waiting, at
  clock reading 9, \<^verbatim>\<open>Pub\<close> is held up in the send.
\<close>

theorem Pub_unbuffered_handle_counterexample:
  "Pub_blocking \<lparr>failed_read = \<lambda>e. None, nil_receiver = None\<rparr> (\<lambda>evch. 0)
     (Sub \<lparr>Name = ''ch'', Size = 1, Life = 0, Key = [], Clients = {},
      Messages = Some (NewCircularMessageArray 1), One2One = False, inited = True\<rparr> 3) 9 ''x'' = Inr None"
  by (simp add: Sub_def Pub_blocking_def deref_def deliver_def)

subsection \<open>Configuration\<close>

text \<open>
  C8. First configuration wins. \<^verbatim>\<open>GetOrCreateChannel\<close> on a name whose channel is
  initialized returns that channel and leaves the registry, and so the channel's
  \<^verbatim>\<open>Size\<close>, \<^verbatim>\<open>Life\<close>, \<^verbatim>\<open>One2One\<close>, \<^verbatim>\<open>Key\<close> and history, as they were, whatever the
  arguments. On a name whose channel is not initialized, or that has no channel yet,
  these fields are set from the arguments, the history is a new buffer of the given
  capacity, and the channel is marked initialized; its name and waiters are kept.
\<close>

theorem GetOrCreateChannel_first_wins:
  "(\<forall>c. reg name = Some c \<and> inited c \<longrightarrow>
      GetOrCreateChannel reg name sz life one2one key = (reg, c, None)) \<and>
   (\<forall>c. reg name = Some c \<and> \<not> inited c \<longrightarrow>
      GetOrCreateChannel reg name sz life one2one key =
        (reg(name \<mapsto> c\<lparr>Size := sz, Life := life, Key := key,
                         Messages := Some (NewCircularMessageArray sz),
                         One2One := one2one, inited := True\<rparr>),
         c\<lparr>Size := sz, Life := life, Key := key,
           Messages := Some (NewCircularMessageArray sz),
           One2One := one2one, inited := True\<rparr>, None)) \<and>
   (reg name = None \<longrightarrow>
      GetOrCreateChannel reg name sz life one2one key =
        (reg(name \<mapsto> \<lparr>Name = name, Size = sz, Life = life, Key = key, Clients = {},
                        Messages = Some (NewCircularMessageArray sz),
                        One2One = one2one, inited = True\<rparr>),
         \<lparr>Name = name, Size = sz, Life = life, Key = key, Clients = {},
          Messages = Some (NewCircularMessageArray sz),
          One2One = one2one, inited = True\<rparr>, None))"
  by (auto simp: GetOrCreateChannel_def GetChannel'_def Let_def)

theorem GetOrCreateChannel_first_wins_witness:
  "GetOrCreateChannel init ''ch'' 3 60 False ''k'' =
     ([''ch'' \<mapsto> \<lparr>Name = ''ch'', Size = 3, Life = 60, Key = ''k'', Clients = {},
          Messages = Some \<lparr>capacity = 3, retained = []\<rparr>, One2One = False, inited = True\<rparr>],
      \<lparr>Name = ''ch'', Size = 3, Life = 60, Key = ''k'', Clients = {},
          Messages = Some \<lparr>capacity = 3, retained = []\<rparr>, One2One = False, inited = True\<rparr>,
      None) \<and>
   GetOrCreateChannel
     [''ch'' \<mapsto> \<lparr>Name = ''ch'', Size = 3, Life = 60, Key = ''k'', Clients = {},
          Messages = Some \<lparr>capacity = 3, retained = []\<rparr>, One2One = False, inited = True\<rparr>]
     ''ch'' 5 10 True ''z'' =
     ([''ch'' \<mapsto> \<lparr>Name = ''ch'', Size = 3, Life = 60, Key = ''k'', Clients = {},
          Messages = Some \<lparr>capacity = 3, retained = []\<rparr>, One2One = False, inited = True\<rparr>],
      \<lparr>Name = ''ch'', Size = 3, Life = 60, Key = ''k'', Clients = {},
          Messages = Some \<lparr>capacity = 3, retained = []\<rparr>, One2One = False, inited = True\<rparr>,
      None) \<and>
   GetOrCreateChannel
     [''ch'' \<mapsto> \<lparr>Name = ''ch'', Size = 0, Life = 0, Key = [], Clients = {7},
          Messages = None, One2One = False, inited = False\<rparr>]
     ''ch'' 5 10 True ''z'' =
     ([''ch'' \<mapsto> \<lparr>Name = ''ch'', Size = 5, Life = 10, Key = ''z'', Clients = {7},
          Messages = Some \<lparr>capacity = 5, retained = []\<rparr>, One2One = True, inited = True\<rparr>],
      \<lparr>Name = ''ch'', Size = 5, Life = 10, Key = ''z'', Clients = {7},
          Messages = Some \<lparr>capacity = 5, retained = []\<rparr>, One2One = True, inited = True\<rparr>,
      None)"
  using
    GetOrCreateChannel_first_wins [of init "''ch''" 3 60 False "''k''"]
    GetOrCreateChannel_first_wins [of
      "[''ch'' \<mapsto> \<lparr>Name = ''ch'', Size = 3, Life = 60, Key = ''k'', Clients = {},
          Messages = Some \<lparr>capacity = 3, retained = []\<rparr>, One2One = False, inited = True\<rparr>]"
      "''ch''" 5 10 True "''z''"]
    GetOrCreateChannel_first_wins [of
      "[''ch'' \<mapsto> \<lparr>Name = ''ch'', Size = 0, Life = 0, Key = [], Clients = {7},
          Messages = None, One2One = False, inited = False\<rparr>]"
      "''ch''" 5 10 True "''z''"]
  by (simp add: init_def NewCircularMessageArray_def)

subsection \<open>The snapshot\<close>



end
